theory Spec2Isabelle
  imports Main "HOL-Library.Word"
begin

section \<open>Python values, errors and device handles\<close>

text \<open>
  The integration is dynamically typed: service parameters and device attributes are
  Python objects. \<open>pyval\<close> covers the values that reach the code: \<open>None\<close>, booleans,
  unbounded integers, strings, byte strings and lists. Floating point numbers and
  nested dictionaries are left out.
\<close>

datatype pyval =
    PNone
  | PBool bool
  | PInt int
  | PStr string
  | PBytes "8 word list"
  | PList "pyval list"

datatype error =
    AttributeError
  | TypeError
  | ValueError
  | Invalid
  | ServiceNotFound

text \<open>
  \<open>bind_err\<close> sequences two steps of which the first may raise: the exception of the
  first step is the result.
\<close>

definition bind_err :: "error + 'a \<Rightarrow> ('a \<Rightarrow> error + 'b) \<Rightarrow> error + 'b" where
  "bind_err r f = (case r of Inl e \<Rightarrow> Inl e | Inr v \<Rightarrow> f v)"

text \<open>
  A device handle is an object of the device-control library. What the integration sees
  of it is its concrete class (for the \<open>isinstance\<close> test of \<open>state_attributes\<close>) and its
  attributes, read with \<open>device.attr\<close> and written with \<open>setattr\<close>. The handle is modelled
  as a plain attribute store: reading an attribute that is not there raises
  \<open>AttributeError\<close>, and a write stores the value under the attribute's name.
  The library's classes beyond the two HDMI-capable ones are \<open>OtherDevice\<close>.
\<close>

datatype device_class = DreamScreenHD | DreamScreen4K | OtherDevice

record device =
  dev_class :: device_class
  obj_dict :: "string \<rightharpoonup> pyval"

definition getattr :: "device \<Rightarrow> string \<Rightarrow> error + pyval" where
  "getattr d a = (case obj_dict d a of None \<Rightarrow> Inl AttributeError | Some v \<Rightarrow> Inr v)"

definition setattr :: "device \<Rightarrow> string \<Rightarrow> pyval \<Rightarrow> device" where
  "setattr d a v = d\<lparr>obj_dict := (obj_dict d)(a \<mapsto> v)\<rparr>"

text \<open>Python's truth value of an object, as \<open>x if self.device.mode else y\<close> tests it.\<close>

fun truthy :: "pyval \<Rightarrow> bool" where
  "truthy PNone = False"
| "truthy (PBool b) = b"
| "truthy (PInt n) = (n \<noteq> 0)"
| "truthy (PStr s) = (s \<noteq> [])"
| "truthy (PBytes bs) = (bs \<noteq> [])"
| "truthy (PList vs) = (vs \<noteq> [])"

text \<open>\<open>v == n\<close> for an integer literal \<open>n\<close>: a boolean compares as 0 or 1.\<close>

fun py_eq_int :: "pyval \<Rightarrow> int \<Rightarrow> bool" where
  "py_eq_int (PInt m) n = (m = n)"
| "py_eq_int (PBool b) n = ((if b then 1 else 0) = n)"
| "py_eq_int _ n = False"

subsection \<open>\<open>bytes.hex()\<close> and \<open>str.upper()\<close>\<close>

definition hex_digit :: "nat \<Rightarrow> char" where
  "hex_digit n = ''0123456789abcdef'' ! (n mod 16)"

definition byte_hex :: "8 word \<Rightarrow> string" where
  "byte_hex b = [hex_digit (unat b div 16), hex_digit (unat b mod 16)]"

definition bytes_hex :: "8 word list \<Rightarrow> string" where
  "bytes_hex bs = concat (map byte_hex bs)"

text \<open>
  \<open>str.upper()\<close> on ASCII text (it is applied to the output of \<open>hex()\<close> only): the
  lower-case letters are replaced by their upper-case forms.
\<close>

definition char_upper :: "char \<Rightarrow> char" where
  "char_upper c =
     (case map_of (zip ''abcdefghijklmnopqrstuvwxyz'' ''ABCDEFGHIJKLMNOPQRSTUVWXYZ'') c of
        None \<Rightarrow> c
      | Some c' \<Rightarrow> c')"

definition str_upper :: "string \<Rightarrow> string" where
  "str_upper s = map char_upper s"

text \<open>
  \<open>value.hex()\<close>: only byte strings have the method among the values modelled; on any
  other object the attribute lookup raises.
\<close>

fun py_hex :: "pyval \<Rightarrow> error + string" where
  "py_hex (PBytes bs) = Inr (bytes_hex bs)"
| "py_hex _ = Inl AttributeError"

section \<open>The entity adapter\<close>

text \<open>
  \<open>DreamScreenEntity\<close> holds the device handle, the generated \<open>entity_id\<close> and the
  attribute \<open>_name\<close> (here \<open>p_name\<close>), which \<open>__init__\<close> fills from \<open>device.name\<close>.
\<close>

record entity =
  device :: device
  entity_id :: string
  p_name :: pyval

definition name :: "entity \<Rightarrow> pyval" where
  "name self = p_name self"

definition state :: "entity \<Rightarrow> error + string" where
  "state self =
     bind_err (getattr (device self) ''mode'')
       (\<lambda>mode. Inr (if truthy mode then ''on'' else ''off''))"

definition assumed_state :: "entity \<Rightarrow> string" where
  "assumed_state self = ''off''"

text \<open>
  \<open>state_attributes\<close> builds a dictionary. The six base entries are read in the order
  of the dictionary literal; for the two HDMI-capable classes \<open>selected_hdmi\<close> starts
  as \<open>None\<close>, is replaced by an input name when \<open>hdmi_input\<close> is 0, 1 or 2, and the six
  HDMI entries are added by \<open>attrs.update\<close>.
\<close>

definition is_hdmi_class :: "device_class \<Rightarrow> bool" where
  "is_hdmi_class c = (c = DreamScreenHD \<or> c = DreamScreen4K)"

definition select_hdmi :: "device \<Rightarrow> error + pyval" where
  "select_hdmi d =
     bind_err (getattr d ''hdmi_input'') (\<lambda>h0.
       if py_eq_int h0 0 then getattr d ''hdmi_input_1_name''
       else bind_err (getattr d ''hdmi_input'') (\<lambda>h1.
         if py_eq_int h1 1 then getattr d ''hdmi_input_2_name''
         else bind_err (getattr d ''hdmi_input'') (\<lambda>h2.
           if py_eq_int h2 2 then getattr d ''hdmi_input_3_name''
           else Inr PNone)))"

definition base_attrs :: "device \<Rightarrow> error + (string \<rightharpoonup> pyval)" where
  "base_attrs d =
     bind_err (getattr d ''group_name'') (\<lambda>group_name.
     bind_err (getattr d ''group_number'') (\<lambda>group_number.
     bind_err (getattr d ''mode'') (\<lambda>mode.
     bind_err (getattr d ''brightness'') (\<lambda>brightness.
     bind_err (getattr d ''ambient_color'') (\<lambda>color.
     bind_err (py_hex color) (\<lambda>hx.
     bind_err (getattr d ''ambient_scene'') (\<lambda>ambient_scene.
       Inr [''group_name'' \<mapsto> group_name,
            ''group_number'' \<mapsto> group_number,
            ''device_mode'' \<mapsto> mode,
            ''brightness'' \<mapsto> brightness,
            ''ambient_color'' \<mapsto> PStr (CHR ''#'' # str_upper hx),
            ''ambient_scene'' \<mapsto> ambient_scene])))))))"

definition hdmi_attrs :: "device \<Rightarrow> (string \<rightharpoonup> pyval) \<Rightarrow> error + (string \<rightharpoonup> pyval)" where
  "hdmi_attrs d attrs =
     bind_err (select_hdmi d) (\<lambda>selected_hdmi.
     bind_err (getattr d ''hdmi_input'') (\<lambda>hdmi_input.
     bind_err (getattr d ''hdmi_input_1_name'') (\<lambda>n1.
     bind_err (getattr d ''hdmi_input_2_name'') (\<lambda>n2.
     bind_err (getattr d ''hdmi_input_3_name'') (\<lambda>n3.
     bind_err (getattr d ''hdmi_active_channels'') (\<lambda>channels.
       Inr (attrs(''selected_hdmi'' \<mapsto> selected_hdmi,
                  ''hdmi_input'' \<mapsto> hdmi_input,
                  ''hdmi_input_1_name'' \<mapsto> n1,
                  ''hdmi_input_2_name'' \<mapsto> n2,
                  ''hdmi_input_3_name'' \<mapsto> n3,
                  ''hdmi_active_channels'' \<mapsto> channels))))))))"

definition state_attributes :: "entity \<Rightarrow> error + (string \<rightharpoonup> pyval)" where
  "state_attributes self =
     bind_err (base_attrs (device self)) (\<lambda>attrs.
       if is_hdmi_class (dev_class (device self)) then hdmi_attrs (device self) attrs
       else Inr attrs)"

section \<open>What the integration takes from outside\<close>

text \<open>
  Four pieces of behaviour belong to Python, to the platform or to the device library
  and are not fixed by this repository; every definition below that depends on one of
  them takes them as the parameter \<open>X\<close>:
  \<^item> \<open>py_int_text\<close>: the builtin \<open>int()\<close> on a string or byte string (\<open>None\<close> when it
    raises \<open>ValueError\<close>);
  \<^item> \<open>cv_entity_ids\<close>: the platform's validator of the \<open>entity_id\<close> entry of a service
    call (\<open>None\<close> when it rejects);
  \<^item> \<open>slugify\<close>: the platform's normalisation of a name;
  \<^item> \<open>update_current_state\<close>: the device library's refresh of a handle.
\<close>

record externals =
  py_int_text :: "pyval \<Rightarrow> int option"
  cv_entity_ids :: "pyval \<Rightarrow> string list option"
  slugify :: "string \<Rightarrow> string"
  update_current_state :: "device \<Rightarrow> device"

section \<open>Entity identifiers\<close>

definition DOMAIN :: string where
  "DOMAIN = ''dreamscreen''"

definition ENTITY_ID_FORMAT :: string where
  "ENTITY_ID_FORMAT = DOMAIN @ ''.{}''"

definition DEVICE_DEFAULT_NAME :: string where
  "DEVICE_DEFAULT_NAME = ''Unnamed Device''"

text \<open>
  \<open>fmt.format(arg)\<close> for a format string with one replacement field \<open>{}\<close> and no
  other brace, which is what \<open>ENTITY_ID_FORMAT\<close> is.
\<close>

fun str_format :: "string \<Rightarrow> string \<Rightarrow> string" where
  "str_format [] arg = []"
| "str_format [c] arg = [c]"
| "str_format (c # c' # rest) arg =
     (if c = CHR ''{'' \<and> c' = CHR ''}'' then arg @ rest
      else c # str_format (c' # rest) arg)"

definition char_lower :: "char \<Rightarrow> char" where
  "char_lower c =
     (case map_of (zip ''ABCDEFGHIJKLMNOPQRSTUVWXYZ'' ''abcdefghijklmnopqrstuvwxyz'') c of
        None \<Rightarrow> c
      | Some c' \<Rightarrow> c')"

definition str_lower :: "string \<Rightarrow> string" where
  "str_lower s = map char_lower s"

text \<open>\<open>str(n)\<close> for a natural number: its decimal digits.\<close>

definition digit_char :: "nat \<Rightarrow> char" where
  "digit_char n = ''0123456789'' ! (n mod 10)"

function str_of_nat :: "nat \<Rightarrow> string" where
  "str_of_nat n =
     (if n < 10 then [digit_char n] else str_of_nat (n div 10) @ [digit_char n])"
  by pat_completeness auto
termination
  by (relation "measure id") auto

declare str_of_nat.simps [simp del]

text \<open>
  Modelled from the spec: \<open>generate_entity_id\<close> is a helper of the platform, not of this
  repository. The spec gives its contract: the identifier is "a fixed domain prefix
  joined with a normalized form of the device's name, disambiguated against the
  supplied set", "collision-avoided by suffixing". The model follows the platform's
  helper: the preferred string is tried first, then \<open>preferred_2\<close>, \<open>preferred_3\<close>, ...
  until one is not among the current identifiers. \<open>suffixed\<close> is
  \<open>"{}_{}".format(preferred_string, tries)\<close>.
\<close>

definition suffixed :: "string \<Rightarrow> nat \<Rightarrow> string" where
  "suffixed preferred_string tries = preferred_string @ ''_'' @ str_of_nat tries"

function ensure_loop :: "string \<Rightarrow> string list \<Rightarrow> string \<Rightarrow> nat \<Rightarrow> string" where
  "ensure_loop preferred_string current_strings test_string tries =
     (if test_string \<in> set current_strings
      then ensure_loop preferred_string current_strings
             (suffixed preferred_string (tries + 1)) (tries + 1)
      else test_string)"
  by pat_completeness auto

definition ensure_unique_string :: "string \<Rightarrow> string list \<Rightarrow> string" where
  "ensure_unique_string preferred_string current_strings =
     ensure_loop preferred_string current_strings preferred_string 1"

definition generate_entity_id ::
  "externals \<Rightarrow> string \<Rightarrow> pyval \<Rightarrow> string list \<Rightarrow> error + string" where
  "generate_entity_id X entity_id_format nm current_ids =
     (case nm of
        PStr s \<Rightarrow>
          (let slug = (if slugify X s \<noteq> [] then slugify X s
                       else slugify X DEVICE_DEFAULT_NAME)
           in Inr (ensure_unique_string
                     (str_format entity_id_format (str_lower slug)) current_ids))
      | _ \<Rightarrow> Inl TypeError)"

text \<open>
  \<open>DreamScreenEntity.__init__\<close>: the device is stored, the identifier generated from
  \<open>device.name\<close> against \<open>current_ids\<close>, and \<open>device.name\<close> is copied into \<open>_name\<close>.
\<close>

definition DreamScreenEntity_init ::
  "externals \<Rightarrow> device \<Rightarrow> string list \<Rightarrow> error + entity" where
  "DreamScreenEntity_init X dev current_ids =
     bind_err (getattr dev ''name'') (\<lambda>n.
     bind_err (generate_entity_id X ENTITY_ID_FORMAT n current_ids) (\<lambda>eid.
     bind_err (getattr dev ''name'') (\<lambda>n'.
       Inr \<lparr>device = dev, entity_id = eid, p_name = n'\<rparr>)))"

text \<open>
  The discovery loop of \<open>async_setup\<close>: one adapter per discovered device, each built
  against the identifiers generated so far. The devices are what the library's
  \<open>get_devices()\<close> returned.
\<close>

fun discover_loop ::
  "externals \<Rightarrow> device list \<Rightarrow> entity list \<Rightarrow> string list \<Rightarrow> error + (entity list \<times> string list)"
  where
  "discover_loop X [] entities entity_ids = Inr (entities, entity_ids)"
| "discover_loop X (dev # devs) entities entity_ids =
     bind_err (DreamScreenEntity_init X dev entity_ids) (\<lambda>ent.
       discover_loop X devs (entities @ [ent]) (entity_ids @ [entity_id ent]))"

section \<open>Service schemas\<close>

text \<open>
  Modelled from the spec: the validators are those of the validation library, which is
  not part of this repository; the spec gives what they enforce ("mode in [0,3];
  hdmi_source in [0,2]; brightness in [0,100]; ambient_scene in [0,8]; ambient_color
  matches a 3- or 6-digit hex-color pattern prefixed with #", "out-of-range or
  wrong-typed parameter is rejected"). A service call carries a dictionary \<open>data\<close>, here
  an association list. The schemas of the source are built from \<open>Coerce(int)\<close>,
  \<open>Range(min, max)\<close>, \<open>All(...)\<close>, \<open>Match(pattern)\<close> and a dictionary schema whose keys
  are all \<open>Required\<close>. A validator returns the validated value or raises \<open>Invalid\<close>.
\<close>

type_synonym validator = "pyval \<Rightarrow> error + pyval"

type_synonym service_data = "(string \<times> pyval) list"

definition vol_Coerce_int :: "externals \<Rightarrow> validator" where
  "vol_Coerce_int X v =
     (case v of
        PInt n \<Rightarrow> Inr (PInt n)
      | PBool b \<Rightarrow> Inr (PInt (if b then 1 else 0))
      | PStr s \<Rightarrow> (case py_int_text X v of None \<Rightarrow> Inl Invalid | Some n \<Rightarrow> Inr (PInt n))
      | PBytes bs \<Rightarrow> (case py_int_text X v of None \<Rightarrow> Inl Invalid | Some n \<Rightarrow> Inr (PInt n))
      | PNone \<Rightarrow> Inl Invalid
      | PList vs \<Rightarrow> Inl Invalid)"

definition vol_Range :: "int \<Rightarrow> int \<Rightarrow> validator" where
  "vol_Range min_v max_v v =
     (case v of
        PInt n \<Rightarrow> if n < min_v then Inl Invalid else if max_v < n then Inl Invalid else Inr v
      | PBool b \<Rightarrow>
          if (if b then 1 else 0) < min_v then Inl Invalid
          else if max_v < (if b then 1 else 0) then Inl Invalid else Inr v
      | _ \<Rightarrow> Inl TypeError)"

fun vol_All :: "validator list \<Rightarrow> validator" where
  "vol_All [] v = Inr v"
| "vol_All (f # fs) v = bind_err (f v) (vol_All fs)"

text \<open>
  The pattern \<^verbatim>\<open>^#(?:[0-9a-fA-F]{3}){1,2}$\<close> as \<open>re.match\<close> reads it: a \<open>#\<close>, then one or
  two groups of three hexadecimal digits, then the end of the string. Python's \<open>$\<close> also
  matches just before a newline that ends the string.
\<close>

definition is_hex_char :: "char \<Rightarrow> bool" where
  "is_hex_char c = (c \<in> set ''0123456789abcdefABCDEF'')"

definition color_regex_match :: "string \<Rightarrow> bool" where
  "color_regex_match s =
     (case s of
        [] \<Rightarrow> False
      | c # rest \<Rightarrow>
          c = CHR ''#'' \<and>
          (let body = (if rest \<noteq> [] \<and> last rest = CHR 0x0A then butlast rest else rest)
           in (length body = 3 \<or> length body = 6) \<and> list_all is_hex_char body))"

definition vol_Match :: "(string \<Rightarrow> bool) \<Rightarrow> validator" where
  "vol_Match pattern v =
     (case v of
        PStr s \<Rightarrow> if pattern s then Inr v else Inl Invalid
      | _ \<Rightarrow> Inl Invalid)"

text \<open>
  A dictionary schema with required keys only: every entry of the data must be under a
  key of the schema and pass that key's validator, and every key of the schema must be
  in the data.
\<close>

fun validate_items :: "(string \<times> validator) list \<Rightarrow> service_data \<Rightarrow> error + service_data" where
  "validate_items sch [] = Inr []"
| "validate_items sch ((k, v) # kvs) =
     (case map_of sch k of
        None \<Rightarrow> Inl Invalid
      | Some f \<Rightarrow>
          (case f v of
             Inl e \<Rightarrow> Inl e
           | Inr v' \<Rightarrow> bind_err (validate_items sch kvs) (\<lambda>out. Inr ((k, v') # out))))"

definition vol_Schema :: "(string \<times> validator) list \<Rightarrow> service_data \<Rightarrow> error + service_data" where
  "vol_Schema sch d =
     bind_err (validate_items sch d) (\<lambda>out.
       if list_all (\<lambda>k. k \<in> set (map fst out)) (map fst sch) then Inr out
       else Inl Invalid)"

definition entity_ids :: "externals \<Rightarrow> validator" where
  "entity_ids X v =
     (case cv_entity_ids X v of None \<Rightarrow> Inl Invalid | Some ids \<Rightarrow> Inr (PList (map PStr ids)))"

definition ATTR_ENTITY_ID :: string where "ATTR_ENTITY_ID = ''entity_id''"
definition CONF_MODE :: string where "CONF_MODE = ''mode''"
definition CONF_BRIGHTNESS :: string where "CONF_BRIGHTNESS = ''brightness''"
definition CONF_HDMI_SOURCE :: string where "CONF_HDMI_SOURCE = ''source''"
definition CONF_AMBIENT_SCENE :: string where "CONF_AMBIENT_SCENE = ''scene''"
definition CONF_AMBIENT_COLOR :: string where "CONF_AMBIENT_COLOR = ''color''"

definition SERVICE_MODE :: string where "SERVICE_MODE = ''set_mode''"
definition SERVICE_HDMI_SOURCE :: string where "SERVICE_HDMI_SOURCE = ''set_hdmi_source''"
definition SERVICE_BRIGHTNESS :: string where "SERVICE_BRIGHTNESS = ''set_brightness''"
definition SERVICE_AMBIENT_SCENE :: string where "SERVICE_AMBIENT_SCENE = ''set_ambient_scene''"
definition SERVICE_AMBIENT_COLOR :: string where "SERVICE_AMBIENT_COLOR = ''set_ambient_color''"

definition SERVICE_MODE_SCHEMA :: "externals \<Rightarrow> service_data \<Rightarrow> error + service_data" where
  "SERVICE_MODE_SCHEMA X =
     vol_Schema [(ATTR_ENTITY_ID, entity_ids X),
                 (CONF_MODE, vol_All [vol_Coerce_int X, vol_Range 0 3])]"

definition SERVICE_HDMI_SOURCE_SCHEMA :: "externals \<Rightarrow> service_data \<Rightarrow> error + service_data" where
  "SERVICE_HDMI_SOURCE_SCHEMA X =
     vol_Schema [(ATTR_ENTITY_ID, entity_ids X),
                 (CONF_HDMI_SOURCE, vol_All [vol_Coerce_int X, vol_Range 0 2])]"

definition SERVICE_BRIGHTNESS_SCHEMA :: "externals \<Rightarrow> service_data \<Rightarrow> error + service_data" where
  "SERVICE_BRIGHTNESS_SCHEMA X =
     vol_Schema [(ATTR_ENTITY_ID, entity_ids X),
                 (CONF_BRIGHTNESS, vol_All [vol_Coerce_int X, vol_Range 0 100])]"

definition SERVICE_AMBIENT_SCENE_SCHEMA :: "externals \<Rightarrow> service_data \<Rightarrow> error + service_data" where
  "SERVICE_AMBIENT_SCENE_SCHEMA X =
     vol_Schema [(ATTR_ENTITY_ID, entity_ids X),
                 (CONF_AMBIENT_SCENE, vol_All [vol_Coerce_int X, vol_Range 0 8])]"

definition SERVICE_AMBIENT_COLOR_SCHEMA :: "externals \<Rightarrow> service_data \<Rightarrow> error + service_data" where
  "SERVICE_AMBIENT_COLOR_SCHEMA X =
     vol_Schema [(ATTR_ENTITY_ID, entity_ids X),
                 (CONF_AMBIENT_COLOR, vol_Match color_regex_match)]"

record service_definition =
  attribute :: string
  schema :: "service_data \<Rightarrow> error + service_data"
  param :: string

definition SERVICE_TO_ATTRIBUTE :: "externals \<Rightarrow> (string \<times> service_definition) list" where
  "SERVICE_TO_ATTRIBUTE X =
     [(SERVICE_MODE,
         \<lparr>attribute = ''mode'', schema = SERVICE_MODE_SCHEMA X, param = CONF_MODE\<rparr>),
      (SERVICE_HDMI_SOURCE,
         \<lparr>attribute = ''hdmi_input'', schema = SERVICE_HDMI_SOURCE_SCHEMA X,
          param = CONF_HDMI_SOURCE\<rparr>),
      (SERVICE_BRIGHTNESS,
         \<lparr>attribute = ''brightness'', schema = SERVICE_BRIGHTNESS_SCHEMA X,
          param = CONF_BRIGHTNESS\<rparr>),
      (SERVICE_AMBIENT_SCENE,
         \<lparr>attribute = ''ambient_scene'', schema = SERVICE_AMBIENT_SCENE_SCHEMA X,
          param = CONF_AMBIENT_SCENE\<rparr>),
      (SERVICE_AMBIENT_COLOR,
         \<lparr>attribute = ''ambient_color'', schema = SERVICE_AMBIENT_COLOR_SCHEMA X,
          param = CONF_AMBIENT_COLOR\<rparr>)]"

section \<open>The service dispatcher\<close>

text \<open>
  The state the dispatcher works on: the adapters registered with the component, and
  the operations issued to device handles so far, in order (an attribute write on the
  handle of an entity, or a refresh of an entity).
\<close>

datatype dev_op = SetAttr string string pyval | UpdateState string

record hass =
  entities :: "entity list"
  device_ops :: "dev_op list"

record service_call =
  service :: string
  data :: service_data

definition dict_get :: "service_data \<Rightarrow> string \<Rightarrow> pyval" where
  "dict_get d k = (case map_of d k of None \<Rightarrow> PNone | Some v \<Rightarrow> v)"

text \<open>
  Modelled from the spec: \<open>async_extract_from_service\<close> belongs to the platform's entity
  component. The spec: "target entity identifiers are resolved to the corresponding
  in-memory adapters via the platform's entity registry; an identifier with no matching
  registered adapter is silently skipped". The result is the list of resolved
  identifiers, each once; a call without the \<open>entity_id\<close> entry addresses every adapter.
\<close>

fun id_strings :: "pyval \<Rightarrow> string list" where
  "id_strings (PList vs) = concat (map (\<lambda>v. case v of PStr s \<Rightarrow> [s] | _ \<Rightarrow> []) vs)"
| "id_strings (PStr s) = [s]"
| "id_strings _ = []"

definition async_extract_from_service :: "hass \<Rightarrow> service_call \<Rightarrow> string list" where
  "async_extract_from_service h call =
     (case map_of (data call) ATTR_ENTITY_ID of
        None \<Rightarrow> remdups (map entity_id (entities h))
      | Some v \<Rightarrow> filter (\<lambda>i. i \<in> set (map entity_id (entities h))) (remdups (id_strings v)))"

text \<open>
  The loop over the target entities: \<open>setattr(entity.device, attribute, attribute_value)\<close>
  on the handle of the target, and the refresh of the target queued in \<open>updates\<close>. A
  target is addressed by its identifier, the key under which the component holds it.
\<close>

definition write_device :: "string \<Rightarrow> string \<Rightarrow> pyval \<Rightarrow> entity \<Rightarrow> entity" where
  "write_device target attr v e =
     (if entity_id e = target then e\<lparr>device := setattr (device e) attr v\<rparr> else e)"

fun setattr_loop ::
  "string \<Rightarrow> pyval \<Rightarrow> string list \<Rightarrow> hass \<Rightarrow> string list \<Rightarrow> hass \<times> string list" where
  "setattr_loop attr v [] h updates = (h, updates)"
| "setattr_loop attr v (target # targets) h updates =
     setattr_loop attr v targets
       (h\<lparr>entities := map (write_device target attr v) (entities h),
          device_ops := device_ops h @ [SetAttr target attr v]\<rparr>)
       (updates @ [target])"

text \<open>
  \<open>entity.update()\<close> calls the library's refresh on the handle.
  \<open>async_update_ha_state(True)\<close> runs \<open>update\<close> and then republishes the entity; the
  published copy is not part of this model. \<open>asyncio.wait\<close> runs the queued refreshes;
  on an empty collection it raises \<open>ValueError\<close>. The refreshes run concurrently, each
  on its own entity; the model runs them in the order of the queue.
\<close>

definition update :: "externals \<Rightarrow> entity \<Rightarrow> entity" where
  "update X self = self\<lparr>device := update_current_state X (device self)\<rparr>"

definition async_update_ha_state :: "externals \<Rightarrow> string \<Rightarrow> hass \<Rightarrow> hass" where
  "async_update_ha_state X target h =
     h\<lparr>entities := map (\<lambda>e. if entity_id e = target then update X e else e) (entities h),
       device_ops := device_ops h @ [UpdateState target]\<rparr>"

definition asyncio_wait :: "externals \<Rightarrow> string list \<Rightarrow> hass \<Rightarrow> error + hass" where
  "asyncio_wait X updates h =
     (if updates = [] then Inl ValueError
      else Inr (fold (async_update_ha_state X) updates h))"

definition async_handle_dreamscreen_services ::
  "externals \<Rightarrow> hass \<Rightarrow> service_call \<Rightarrow> (error + unit) \<times> hass" where
  "async_handle_dreamscreen_services X h call =
     (case map_of (SERVICE_TO_ATTRIBUTE X) (service call) of
        None \<Rightarrow> (Inl TypeError, h)
      | Some service_definition \<Rightarrow>
          (let attr = attribute service_definition;
               attribute_value = dict_get (data call) (param service_definition);
               target_entities = async_extract_from_service h call;
               (h', updates) = setattr_loop attr attribute_value target_entities h []
           in if updates \<noteq> []
              then (case asyncio_wait X updates h' of
                      Inl e \<Rightarrow> (Inl e, h')
                    | Inr h'' \<Rightarrow> (Inr (), h''))
              else (Inr (), h')))"

text \<open>
  The registration loop of \<open>async_setup\<close> registers every service of the table with its
  schema and the dispatcher as handler.

  Modelled from the spec: calling a registered service is the platform's part. The spec:
  "a request failing validation is rejected before any device is touched (fails with
  ValidationError)". \<open>async_call\<close> validates the data with the registered schema first: a
  rejected call ends there, an accepted one runs the handler on the validated data.
\<close>

definition registered_services ::
  "externals \<Rightarrow> (string \<times> (service_data \<Rightarrow> error + service_data)) list" where
  "registered_services X = map (\<lambda>(service_name, sd). (service_name, schema sd)) (SERVICE_TO_ATTRIBUTE X)"

definition async_call ::
  "externals \<Rightarrow> hass \<Rightarrow> string \<Rightarrow> service_data \<Rightarrow> (error + unit) \<times> hass" where
  "async_call X h service_name d =
     (case map_of (registered_services X) service_name of
        None \<Rightarrow> (Inl ServiceNotFound, h)
      | Some sch \<Rightarrow>
          (case sch d of
             Inl e \<Rightarrow> (Inl e, h)
           | Inr validated \<Rightarrow>
               async_handle_dreamscreen_services X h
                 \<lparr>service = service_name, data = validated\<rparr>))"

text \<open>
  \<open>async_setup\<close>: the discovery loop, then the adapters are added to the component.
\<close>

definition async_setup :: "externals \<Rightarrow> device list \<Rightarrow> error + hass" where
  "async_setup X devices =
     bind_err (discover_loop X devices [] []) (\<lambda>(ents, ids).
       Inr \<lparr>entities = ents, device_ops = []\<rparr>)"

section \<open>The loops in closed form\<close>

text \<open>
  What the write loop and the refreshes do to one adapter, given the list of targets:
  the adapters whose identifier is among the targets are written to (refreshed), the
  others are left as they are.
\<close>

definition write_all :: "string list \<Rightarrow> string \<Rightarrow> pyval \<Rightarrow> entity \<Rightarrow> entity" where
  "write_all targets attr v e =
     (if entity_id e \<in> set targets then e\<lparr>device := setattr (device e) attr v\<rparr> else e)"

definition refresh_all :: "externals \<Rightarrow> string list \<Rightarrow> entity \<Rightarrow> entity" where
  "refresh_all X targets e = (if entity_id e \<in> set targets then update X e else e)"

section \<open>The documented validation rules\<close>

text \<open>
  The rules as the specification's table of services states them, one row per service:
  the name of the service, the key of its parameter and the rule. A value violates an
  integer range when it is an integer (or boolean, which Python counts as 0 or 1)
  outside the range, or is \<open>None\<close> or a list; it violates the colour pattern when it is a
  string that does not match the pattern, or is not a string. The pattern is read as
  \<open>re.match\<close> reads it.
\<close>

datatype rule = IntRange int int | ColorPattern

definition documented_rules :: "(string \<times> string \<times> rule) list" where
  "documented_rules =
     [(''set_mode'', ''mode'', IntRange 0 3),
      (''set_hdmi_source'', ''source'', IntRange 0 2),
      (''set_brightness'', ''brightness'', IntRange 0 100),
      (''set_ambient_scene'', ''scene'', IntRange 0 8),
      (''set_ambient_color'', ''color'', ColorPattern)]"

fun violates :: "rule \<Rightarrow> pyval \<Rightarrow> bool" where
  "violates (IntRange lo hi) (PInt n) = (n < lo \<or> hi < n)"
| "violates (IntRange lo hi) (PBool b) = ((if b then 1 else 0) < lo \<or> hi < (if b then 1 else 0))"
| "violates (IntRange lo hi) PNone = True"
| "violates (IntRange lo hi) (PList vs) = True"
| "violates (IntRange lo hi) (PStr s) = False"
| "violates (IntRange lo hi) (PBytes bs) = False"
| "violates ColorPattern (PStr s) = (\<not> color_regex_match s)"
| "violates ColorPattern _ = True"

section \<open>Example inputs\<close>

text \<open>
  Concrete inputs for the examples below: an instance of the outside behaviour (no
  text is accepted as an integer, every list of strings is accepted as identifiers,
  names are kept as they are, a refresh changes nothing), a device with every attribute
  the adapter reads, and an adapter around it.
\<close>

definition example_externals :: externals where
  "example_externals =
     \<lparr>py_int_text = (\<lambda>v. None),
      cv_entity_ids = (\<lambda>v. case v of PList vs \<Rightarrow> Some (id_strings v) | _ \<Rightarrow> None),
      slugify = (\<lambda>s. s),
      update_current_state = (\<lambda>d. d)\<rparr>"

definition example_device :: "device_class \<Rightarrow> string \<Rightarrow> int \<Rightarrow> device" where
  "example_device c nm h =
     \<lparr>dev_class = c,
      obj_dict = [''name'' \<mapsto> PStr nm,
                  ''group_name'' \<mapsto> PStr ''unassigned'',
                  ''group_number'' \<mapsto> PInt 0,
                  ''mode'' \<mapsto> PInt 1,
                  ''brightness'' \<mapsto> PInt 50,
                  ''ambient_color'' \<mapsto> PBytes [0x1A, 0xFF, 0x00],
                  ''ambient_scene'' \<mapsto> PInt 2,
                  ''hdmi_input'' \<mapsto> PInt h,
                  ''hdmi_input_1_name'' \<mapsto> PStr ''tv'',
                  ''hdmi_input_2_name'' \<mapsto> PStr ''console'',
                  ''hdmi_input_3_name'' \<mapsto> PStr ''player'',
                  ''hdmi_active_channels'' \<mapsto> PInt 1]\<rparr>"

definition example_entity :: "device_class \<Rightarrow> string \<Rightarrow> string \<Rightarrow> int \<Rightarrow> entity" where
  "example_entity c eid nm h =
     \<lparr>device = example_device c nm h, entity_id = eid, p_name = PStr nm\<rparr>"

definition example_hass :: hass where
  "example_hass =
     \<lparr>entities = [example_entity DreamScreenHD ''dreamscreen.den'' ''Den'' 0,
                  example_entity OtherDevice ''dreamscreen.attic'' ''Attic'' 0],
      device_ops = []\<rparr>"

text \<open>The entry of a snapshot under a key, when the snapshot could be built.\<close>

definition snapshot_get :: "error + (string \<rightharpoonup> pyval) \<Rightarrow> string \<Rightarrow> error + pyval option" where
  "snapshot_get r k = (case r of Inl e \<Rightarrow> Inl e | Inr attrs \<Rightarrow> Inr (attrs k))"

text \<open>Reading a decimal numeral back, the inverse of \<open>str_of_nat\<close>.\<close>

definition nat_of_str :: "string \<Rightarrow> nat" where
  "nat_of_str s = foldl (\<lambda>a c. 10 * a + (of_char c - 48)) 0 s"

section \<open>Basic facts\<close>

lemma digit_small: "k < 10 \<Longrightarrow> (of_char (''0123456789'' ! k) :: nat) - 48 = k"
proof -
  assume "k < 10"
  then have "k \<in> {0, 1, 2, 3, 4, 5, 6, 7, 8, 9}" by auto
  then show ?thesis by (elim insertE) simp_all
qed

lemma digit_val: "(of_char (digit_char n) :: nat) - 48 = n mod 10"
  by (simp add: digit_char_def digit_small)

lemma nat_of_str_of_nat: "nat_of_str (str_of_nat n) = n"
proof (induction n rule: str_of_nat.induct)
  case (1 n)
  show ?case
  proof (cases "n < 10")
    case True
    then show ?thesis by (simp add: str_of_nat.simps[of n] nat_of_str_def digit_val)
  next
    case False
    with 1 have "nat_of_str (str_of_nat (n div 10)) = n div 10" by simp
    with False show ?thesis
      by (simp add: str_of_nat.simps[of n] nat_of_str_def digit_val)
  qed
qed

lemma inj_str_of_nat: "inj str_of_nat"
  by (rule inj_on_inverseI[where g = nat_of_str]) (rule nat_of_str_of_nat)

lemma inj_suffixed: "inj (suffixed p)"
  by (auto simp: inj_def suffixed_def dest: injD[OF inj_str_of_nat])

lemma finite_later: "finite {k. tries < k \<and> suffixed p k \<in> set cur}"
proof -
  have "finite (suffixed p -` set cur)"
    by (rule finite_vimageI[OF _ inj_suffixed]) simp
  then show ?thesis by (rule rev_finite_subset) auto
qed

termination ensure_loop
proof (relation "measure (\<lambda>(p, cur, t, n).
         2 * card {k. n < k \<and> suffixed p k \<in> set cur} + (if t \<in> set cur then 1 else 0))",
       goal_cases)
  case 1
  show ?case by simp
next
  case (2 p cur t n)
  let ?A = "{k. n < k \<and> suffixed p k \<in> set cur}"
  let ?B = "{k. n + 1 < k \<and> suffixed p k \<in> set cur}"
  show ?case
  proof (cases "suffixed p (n + 1) \<in> set cur")
    case True
    have "?A = insert (n + 1) ?B" using True by auto
    moreover have "n + 1 \<notin> ?B" by simp
    ultimately have "card ?A = Suc (card ?B)"
      using finite_later[of "n + 1" p cur] by simp
    with 2 True show ?thesis by simp
  next
    case False
    have "?A = ?B" using False
      by (auto simp: Suc_lessI) (metis Suc_lessI)
    with 2 False show ?thesis by simp
  qed
qed

declare ensure_loop.simps [simp del]

lemma ensure_loop_fresh: "ensure_loop p cur t n \<notin> set cur"
  by (induction p cur t n rule: ensure_loop.induct) (simp add: ensure_loop.simps)

lemma ensure_unique_string_fresh: "ensure_unique_string p cur \<notin> set cur"
  by (simp add: ensure_unique_string_def ensure_loop_fresh)

lemma bind_err_Inr_iff: "bind_err r f = Inr y \<longleftrightarrow> (\<exists>v. r = Inr v \<and> f v = Inr y)"
  by (cases r) (simp_all add: bind_err_def)

lemma bind_err_simps [simp]:
  "bind_err (Inl e) f = Inl e" "bind_err (Inr v) f = f v"
  by (simp_all add: bind_err_def)

lemma getattr_Inr_iff: "getattr d a = Inr v \<longleftrightarrow> obj_dict d a = Some v"
  by (simp add: getattr_def split: option.splits)

lemma getattr_setattr: "getattr (setattr d a v) b = (if b = a then Inr v else getattr d b)"
  by (simp add: getattr_def setattr_def)

section \<open>The adapter's properties\<close>

subsection \<open>Assumed state\<close>

text \<open>
  Claim C9. In every state of every device handle, \<open>assumed_state\<close> is the string
  \<open>off\<close>: the property reads nothing of the device, so the answer is the same for a
  reachable device whose mode is not zero.
\<close>

theorem assumed_state_off: "assumed_state self = ''off''"
  by (simp add: assumed_state_def)

subsection \<open>Name\<close>

lemma init_name: "DreamScreenEntity_init X dev ids = Inr e \<Longrightarrow> getattr dev ''name'' = Inr (p_name e)"
  by (auto simp: DreamScreenEntity_init_def bind_err_Inr_iff)

lemma example_init:
  "DreamScreenEntity_init example_externals (example_device OtherDevice ''Den'' 0) [] =
     Inr (example_entity OtherDevice ''dreamscreen.den'' ''Den'' 0)"
  by (simp add: DreamScreenEntity_init_def getattr_def example_device_def example_entity_def
      generate_entity_id_def example_externals_def ENTITY_ID_FORMAT_def DOMAIN_def
      str_lower_def char_lower_def ensure_unique_string_def ensure_loop.simps)

text \<open>
  Claim C3 states that \<open>name\<close> reads the device's name at the moment of the read. It
  does not: an adapter built for a device named \<open>Den\<close> still answers \<open>Den\<close> after
  the \<open>name\<close> attribute of its handle has become \<open>Attic\<close>.
\<close>

theorem name_read_through_counterexample:
  "DreamScreenEntity_init example_externals (example_device OtherDevice ''Den'' 0) [] =
     Inr (example_entity OtherDevice ''dreamscreen.den'' ''Den'' 0) \<and>
   getattr
     (device ((example_entity OtherDevice ''dreamscreen.den'' ''Den'' 0)
        \<lparr>device := setattr (example_device OtherDevice ''Den'' 0) ''name'' (PStr ''Attic'')\<rparr>))
     ''name'' = Inr (PStr ''Attic'') \<and>
   name ((example_entity OtherDevice ''dreamscreen.den'' ''Den'' 0)
           \<lparr>device := setattr (example_device OtherDevice ''Den'' 0) ''name'' (PStr ''Attic'')\<rparr>) =
     PStr ''Den''"
  by (simp add: example_init getattr_setattr) (simp add: name_def example_entity_def)

text \<open>
  Claim C3, amended. \<open>name\<close> returns the name the device had when the adapter was
  constructed (\<open>__init__\<close> copies it into \<open>_name\<close>); a later change of the handle does
  not change it.
\<close>

theorem name_is_cached:
  "DreamScreenEntity_init X dev ids = Inr self \<Longrightarrow>
     getattr dev ''name'' = Inr (name self) \<and> name (self\<lparr>device := dev'\<rparr>) = name self"
  by (simp add: init_name name_def)

theorem name_is_cached_witness:
  "DreamScreenEntity_init example_externals (example_device OtherDevice ''Den'' 0) [] =
     Inr (example_entity OtherDevice ''dreamscreen.den'' ''Den'' 0) \<and>
   getattr (example_device OtherDevice ''Den'' 0) ''name'' =
     Inr (name (example_entity OtherDevice ''dreamscreen.den'' ''Den'' 0)) \<and>
   name ((example_entity OtherDevice ''dreamscreen.den'' ''Den'' 0)
           \<lparr>device := setattr (example_device OtherDevice ''Den'' 0) ''name'' (PStr ''Attic'')\<rparr>) =
     name (example_entity OtherDevice ''dreamscreen.den'' ''Den'' 0)"
  using name_is_cached[OF example_init,
      of "setattr (example_device OtherDevice ''Den'' 0) ''name'' (PStr ''Attic'')"]
  by (simp add: example_init)

subsection \<open>Attributes of HDMI-capable devices\<close>

lemma select_hdmi_int:
  "getattr d ''hdmi_input'' = Inr (PInt h) \<Longrightarrow>
   select_hdmi d =
     (if h = 0 then getattr d ''hdmi_input_1_name''
      else if h = 1 then getattr d ''hdmi_input_2_name''
      else if h = 2 then getattr d ''hdmi_input_3_name''
      else Inr PNone)"
  by (simp add: select_hdmi_def)

lemma hdmi_attrs_selected:
  "hdmi_attrs d attrs0 = Inr attrs \<Longrightarrow> select_hdmi d = Inr v \<Longrightarrow> attrs ''selected_hdmi'' = Some v"
  by (auto simp: hdmi_attrs_def bind_err_Inr_iff)

lemma hdmi_attrs_select_ok:
  "hdmi_attrs d attrs0 = Inr attrs \<Longrightarrow> \<exists>v. select_hdmi d = Inr v"
  by (auto simp: hdmi_attrs_def bind_err_Inr_iff)

lemma state_attributes_hdmi:
  "is_hdmi_class (dev_class (device self)) \<Longrightarrow> state_attributes self = Inr attrs \<Longrightarrow>
     \<exists>attrs0. hdmi_attrs (device self) attrs0 = Inr attrs"
  by (auto simp: state_attributes_def bind_err_Inr_iff)

lemma example_attributes:
  "state_attributes (example_entity c eid nm h) =
     (if is_hdmi_class c
      then hdmi_attrs (example_device c nm h)
             [''group_name'' \<mapsto> PStr ''unassigned'', ''group_number'' \<mapsto> PInt 0,
              ''device_mode'' \<mapsto> PInt 1, ''brightness'' \<mapsto> PInt 50,
              ''ambient_color'' \<mapsto> PStr ''#1AFF00'', ''ambient_scene'' \<mapsto> PInt 2]
      else Inr [''group_name'' \<mapsto> PStr ''unassigned'', ''group_number'' \<mapsto> PInt 0,
              ''device_mode'' \<mapsto> PInt 1, ''brightness'' \<mapsto> PInt 50,
              ''ambient_color'' \<mapsto> PStr ''#1AFF00'', ''ambient_scene'' \<mapsto> PInt 2])"
  by (simp add: state_attributes_def example_entity_def base_attrs_def getattr_def
      example_device_def bytes_hex_def byte_hex_def hex_digit_def str_upper_def char_upper_def)

lemma example_hdmi_attrs:
  "hdmi_attrs (example_device c nm 3) attrs0 =
     Inr (attrs0(''selected_hdmi'' \<mapsto> PNone, ''hdmi_input'' \<mapsto> PInt 3,
                 ''hdmi_input_1_name'' \<mapsto> PStr ''tv'', ''hdmi_input_2_name'' \<mapsto> PStr ''console'',
                 ''hdmi_input_3_name'' \<mapsto> PStr ''player'', ''hdmi_active_channels'' \<mapsto> PInt 1))"
  by (simp add: hdmi_attrs_def select_hdmi_def getattr_def example_device_def)

text \<open>
  Claim C4 states that the key \<open>selected_hdmi\<close> is absent when \<open>hdmi_input\<close> is outside
  0..2. It is present: for a \<open>DreamScreenHD\<close> whose \<open>hdmi_input\<close> is 3 the snapshot
  holds \<open>selected_hdmi\<close> with the value \<open>None\<close>.
\<close>

theorem selected_hdmi_absent_counterexample:
  "getattr (device (example_entity DreamScreenHD ''dreamscreen.den'' ''Den'' 3)) ''hdmi_input'' =
     Inr (PInt 3) \<and>
   snapshot_get (state_attributes (example_entity DreamScreenHD ''dreamscreen.den'' ''Den'' 3))
     ''selected_hdmi'' = Inr (Some PNone)"
  by (simp add: example_attributes example_hdmi_attrs snapshot_get_def is_hdmi_class_def)
     (simp add: example_entity_def example_device_def getattr_def)

text \<open>
  Claim C4, amended. For an HDMI-capable device whose \<open>hdmi_input\<close> is an integer, the
  snapshot always contains \<open>selected_hdmi\<close>: it is the device's \<open>hdmi_input_1_name\<close>,
  \<open>hdmi_input_2_name\<close> or \<open>hdmi_input_3_name\<close> when \<open>hdmi_input\<close> is 0, 1 or 2, and
  \<open>None\<close> when it is outside that range.
\<close>

theorem selected_hdmi_always_present:
  assumes hd: "is_hdmi_class (dev_class (device self))"
    and ok: "state_attributes self = Inr attrs"
    and inp: "getattr (device self) ''hdmi_input'' = Inr (PInt h)"
  shows "attrs ''selected_hdmi'' \<noteq> None \<and>
     attrs ''selected_hdmi'' =
       (if h = 0 then obj_dict (device self) ''hdmi_input_1_name''
        else if h = 1 then obj_dict (device self) ''hdmi_input_2_name''
        else if h = 2 then obj_dict (device self) ''hdmi_input_3_name''
        else Some PNone)"
proof -
  from state_attributes_hdmi[OF hd ok] obtain attrs0
    where h: "hdmi_attrs (device self) attrs0 = Inr attrs" by blast
  from hdmi_attrs_select_ok[OF h] obtain v where v: "select_hdmi (device self) = Inr v" by blast
  have sel: "attrs ''selected_hdmi'' = Some v" by (rule hdmi_attrs_selected[OF h v])
  from v have "obj_dict (device self) ''hdmi_input_1_name'' = Some v" if "h = 0"
    using that by (simp add: select_hdmi_int[OF inp] getattr_Inr_iff)
  moreover from v have "obj_dict (device self) ''hdmi_input_2_name'' = Some v" if "h = 1"
    using that by (simp add: select_hdmi_int[OF inp] getattr_Inr_iff)
  moreover from v have "obj_dict (device self) ''hdmi_input_3_name'' = Some v" if "h = 2"
    using that by (simp add: select_hdmi_int[OF inp] getattr_Inr_iff)
  moreover from v have "v = PNone" if "h \<noteq> 0" "h \<noteq> 1" "h \<noteq> 2"
    using that by (simp add: select_hdmi_int[OF inp])
  ultimately show ?thesis using sel by auto
qed

theorem selected_hdmi_always_present_witness:
  "is_hdmi_class (dev_class (device (example_entity DreamScreenHD ''dreamscreen.den'' ''Den'' 3))) \<and>
   getattr (device (example_entity DreamScreenHD ''dreamscreen.den'' ''Den'' 3)) ''hdmi_input'' =
     Inr (PInt 3) \<and>
   snapshot_get (state_attributes (example_entity DreamScreenHD ''dreamscreen.den'' ''Den'' 3))
     ''selected_hdmi'' = Inr (Some PNone)"
proof -
  let ?e = "example_entity DreamScreenHD ''dreamscreen.den'' ''Den'' 3"
  obtain attrs where ok: "state_attributes ?e = Inr attrs"
    by (simp add: example_attributes example_hdmi_attrs is_hdmi_class_def)
  have hd: "is_hdmi_class (dev_class (device ?e))"
    by (simp add: is_hdmi_class_def example_entity_def example_device_def)
  have inp: "getattr (device ?e) ''hdmi_input'' = Inr (PInt 3)"
    by (simp add: example_entity_def example_device_def getattr_def)
  from selected_hdmi_always_present[OF hd ok inp]
  have "attrs ''selected_hdmi'' = Some PNone" by simp
  with ok hd inp show ?thesis by (simp add: snapshot_get_def)
qed

subsection \<open>Attributes of devices without HDMI\<close>

lemma base_attrs_dom:
  "base_attrs d = Inr attrs \<Longrightarrow>
     dom attrs = {''group_name'', ''group_number'', ''device_mode'', ''brightness'',
                  ''ambient_color'', ''ambient_scene''}"
proof -
  assume "base_attrs d = Inr attrs"
  then obtain v1 v2 v3 v4 v5 v6 where
    "attrs = [''group_name'' \<mapsto> v1, ''group_number'' \<mapsto> v2, ''device_mode'' \<mapsto> v3,
              ''brightness'' \<mapsto> v4, ''ambient_color'' \<mapsto> v5, ''ambient_scene'' \<mapsto> v6]"
    by (auto simp: base_attrs_def bind_err_Inr_iff)
  then show ?thesis by (simp add: insert_commute)
qed

lemma state_attributes_plain:
  "\<not> is_hdmi_class (dev_class (device self)) \<Longrightarrow> state_attributes self = base_attrs (device self)"
  by (cases "base_attrs (device self)") (simp_all add: state_attributes_def)

text \<open>
  Claim C6. For a device whose class is not one of the two HDMI-capable classes, a
  snapshot never contains \<open>hdmi_input\<close>, \<open>selected_hdmi\<close>, \<open>hdmi_input_1_name\<close>,
  \<open>hdmi_input_2_name\<close>, \<open>hdmi_input_3_name\<close> or \<open>hdmi_active_channels\<close>, whatever the
  attributes of the device are.
\<close>

theorem no_hdmi_keys_without_hdmi:
  assumes "\<not> is_hdmi_class (dev_class (device self))"
    and "state_attributes self = Inr attrs"
  shows "attrs ''hdmi_input'' = None \<and> attrs ''selected_hdmi'' = None \<and>
         attrs ''hdmi_input_1_name'' = None \<and> attrs ''hdmi_input_2_name'' = None \<and>
         attrs ''hdmi_input_3_name'' = None \<and> attrs ''hdmi_active_channels'' = None"
proof -
  from assms have "base_attrs (device self) = Inr attrs"
    by (simp add: state_attributes_plain)
  then have d: "dom attrs = {''group_name'', ''group_number'', ''device_mode'', ''brightness'',
                  ''ambient_color'', ''ambient_scene''}"
    by (rule base_attrs_dom)
  have "k \<notin> dom attrs \<Longrightarrow> attrs k = None" for k by auto
  then show ?thesis unfolding d by simp
qed

theorem no_hdmi_keys_without_hdmi_witness:
  "\<not> is_hdmi_class (dev_class (device (example_entity OtherDevice ''dreamscreen.den'' ''Den'' 1))) \<and>
   snapshot_get (state_attributes (example_entity OtherDevice ''dreamscreen.den'' ''Den'' 1))
     ''brightness'' = Inr (Some (PInt 50)) \<and>
   snapshot_get (state_attributes (example_entity OtherDevice ''dreamscreen.den'' ''Den'' 1))
     ''hdmi_input'' = Inr None \<and>
   snapshot_get (state_attributes (example_entity OtherDevice ''dreamscreen.den'' ''Den'' 1))
     ''selected_hdmi'' = Inr None"
proof -
  let ?e = "example_entity OtherDevice ''dreamscreen.den'' ''Den'' 1"
  obtain attrs where ok: "state_attributes ?e = Inr attrs"
    by (simp add: example_attributes is_hdmi_class_def)
  have other: "\<not> is_hdmi_class (dev_class (device ?e))"
    by (simp add: is_hdmi_class_def example_entity_def example_device_def)
  have "attrs ''brightness'' = Some (PInt 50)"
    using ok by (auto simp: example_attributes is_hdmi_class_def)
  with no_hdmi_keys_without_hdmi[OF other ok] ok other show ?thesis
    by (simp add: snapshot_get_def)
qed

subsection \<open>The colour entry of a snapshot\<close>

text \<open>
  A snapshot can only be built when the \<open>ambient_color\<close> of the device is a byte string;
  its \<open>ambient_color\<close> entry is then \<open>#\<close> followed by two upper-case hexadecimal digits
  per byte, so \<open>#RRGGBB\<close> for three bytes. How a colour string written by
  \<open>set_ambient_color\<close> becomes the bytes of the handle is the device library's business
  and is not described here.
\<close>

lemma base_attrs_color:
  "base_attrs d = Inr attrs \<Longrightarrow>
     \<exists>bs. getattr d ''ambient_color'' = Inr (PBytes bs) \<and>
          attrs ''ambient_color'' = Some (PStr (CHR ''#'' # str_upper (bytes_hex bs)))"
proof -
  assume "base_attrs d = Inr attrs"
  then obtain c hx where c: "getattr d ''ambient_color'' = Inr c" and hx: "py_hex c = Inr hx"
    and a: "attrs ''ambient_color'' = Some (PStr (CHR ''#'' # str_upper hx))"
    by (auto simp: base_attrs_def bind_err_Inr_iff)
  from hx obtain bs where "c = PBytes bs" "hx = bytes_hex bs" by (cases c) auto
  with c a show ?thesis by auto
qed

lemma hdmi_attrs_keeps_color:
  "hdmi_attrs d attrs0 = Inr attrs \<Longrightarrow> attrs ''ambient_color'' = attrs0 ''ambient_color''"
  by (auto simp: hdmi_attrs_def bind_err_Inr_iff)

lemma ambient_color_snapshot:
  assumes "state_attributes self = Inr attrs"
  shows "\<exists>bs. getattr (device self) ''ambient_color'' = Inr (PBytes bs) \<and>
          attrs ''ambient_color'' = Some (PStr (CHR ''#'' # str_upper (bytes_hex bs)))"
proof -
  from assms obtain attrs0 where b: "base_attrs (device self) = Inr attrs0"
    and r: "(if is_hdmi_class (dev_class (device self)) then hdmi_attrs (device self) attrs0
             else Inr attrs0) = Inr attrs"
    by (auto simp: state_attributes_def bind_err_Inr_iff)
  from r have "attrs ''ambient_color'' = attrs0 ''ambient_color''"
    by (auto split: if_splits dest: hdmi_attrs_keeps_color)
  with base_attrs_color[OF b] show ?thesis by simp
qed

lemma hex_small:
  "k < 16 \<Longrightarrow> char_upper (''0123456789abcdef'' ! k) \<in> set ''0123456789ABCDEF''"
proof -
  assume "k < 16"
  then have "k = 0 \<or> k = 1 \<or> k = 2 \<or> k = 3 \<or> k = 4 \<or> k = 5 \<or> k = 6 \<or> k = 7 \<or>
             k = 8 \<or> k = 9 \<or> k = 10 \<or> k = 11 \<or> k = 12 \<or> k = 13 \<or> k = 14 \<or> k = 15"
    by arith
  then show ?thesis
    by (elim disjE) (simp_all add: char_upper_def)
qed

lemma hex_digit_upper: "char_upper (hex_digit n) \<in> set ''0123456789ABCDEF''"
  unfolding hex_digit_def by (rule hex_small) simp

lemma color_string_shape:
  "length (str_upper (bytes_hex bs)) = 2 * length bs \<and>
   set (str_upper (bytes_hex bs)) \<subseteq> set ''0123456789ABCDEF''"
proof (induction bs)
  case Nil
  show ?case by (simp add: str_upper_def bytes_hex_def)
next
  case (Cons b bs)
  have "str_upper (bytes_hex (b # bs)) =
        char_upper (hex_digit (unat b div 16)) # char_upper (hex_digit (unat b mod 16)) #
        str_upper (bytes_hex bs)"
    by (simp add: str_upper_def bytes_hex_def byte_hex_def)
  with Cons hex_digit_upper[of "unat b div 16"] hex_digit_upper[of "unat b mod 16"]
  show ?case by auto
qed

section \<open>Setup: identifiers of a batch\<close>

lemma generate_entity_id_fresh:
  "generate_entity_id X f n ids = Inr eid \<Longrightarrow> eid \<notin> set ids"
  by (auto simp: generate_entity_id_def Let_def ensure_unique_string_fresh split: pyval.splits)

lemma init_fresh: "DreamScreenEntity_init X dev ids = Inr e \<Longrightarrow> entity_id e \<notin> set ids"
  by (auto simp: DreamScreenEntity_init_def bind_err_Inr_iff dest: generate_entity_id_fresh)

lemma init_device: "DreamScreenEntity_init X dev ids = Inr e \<Longrightarrow> device e = dev"
  by (auto simp: DreamScreenEntity_init_def bind_err_Inr_iff)

text \<open>
  The invariant of the discovery loop: \<open>entity_ids\<close> lists the identifiers of the
  adapters built so far, and they are pairwise distinct.
\<close>

lemma discover_loop_inv:
  "discover_loop X devs es ids = Inr (es', ids') \<Longrightarrow> map entity_id es = ids \<Longrightarrow> distinct ids \<Longrightarrow>
     map entity_id es' = ids' \<and> distinct ids' \<and> map device es' = map device es @ devs"
proof (induction devs arbitrary: es ids)
  case Nil
  then show ?case by simp
next
  case (Cons dev devs)
  from Cons.prems(1) obtain ent where
    ent: "DreamScreenEntity_init X dev ids = Inr ent" and
    rest: "discover_loop X devs (es @ [ent]) (ids @ [entity_id ent]) = Inr (es', ids')"
    by (auto simp: bind_err_Inr_iff)
  have "map entity_id (es @ [ent]) = ids @ [entity_id ent]"
    using Cons.prems(2) by simp
  moreover have "distinct (ids @ [entity_id ent])"
    using Cons.prems(3) init_fresh[OF ent] by simp
  ultimately have "map entity_id es' = ids' \<and> distinct ids' \<and>
      map device es' = map device (es @ [ent]) @ devs"
    by (rule Cons.IH[OF rest])
  then show ?case by (simp add: init_device[OF ent])
qed

text \<open>Setup succeeds when every discovered device advertises a string as its name.\<close>

lemma init_succeeds:
  "obj_dict dev ''name'' = Some (PStr s) \<Longrightarrow> \<exists>e. DreamScreenEntity_init X dev ids = Inr e"
  by (simp add: DreamScreenEntity_init_def getattr_def generate_entity_id_def Let_def)

lemma discover_loop_succeeds:
  "list_all (\<lambda>d. \<exists>s. obj_dict d ''name'' = Some (PStr s)) devs \<Longrightarrow>
     \<exists>r. discover_loop X devs es ids = Inr r"
proof (induction devs arbitrary: es ids)
  case Nil
  then show ?case by simp
next
  case (Cons dev devs)
  then obtain s where "obj_dict dev ''name'' = Some (PStr s)" by auto
  from init_succeeds[OF this] obtain e where "DreamScreenEntity_init X dev ids = Inr e" by blast
  moreover from Cons have "\<exists>r. discover_loop X devs (es @ [e]) (ids @ [entity_id e]) = Inr r"
    by simp
  ultimately show ?case by simp
qed

lemma async_setup_succeeds:
  "list_all (\<lambda>d. \<exists>s. obj_dict d ''name'' = Some (PStr s)) devices \<Longrightarrow>
     \<exists>h. async_setup X devices = Inr h"
  using discover_loop_succeeds[of devices X "[]" "[]"]
  by (auto simp: async_setup_def split: prod.splits)

lemma example_setup:
  "async_setup example_externals
     [example_device DreamScreenHD ''Den'' 0, example_device OtherDevice ''Den'' 1] =
   Inr \<lparr>entities = [example_entity DreamScreenHD ''dreamscreen.den'' ''Den'' 0,
                    example_entity OtherDevice ''dreamscreen.den_2'' ''Den'' 1],
        device_ops = []\<rparr>"
  by (simp add: async_setup_def DreamScreenEntity_init_def getattr_def example_device_def
      example_entity_def generate_entity_id_def example_externals_def ENTITY_ID_FORMAT_def
      DOMAIN_def str_lower_def char_lower_def ensure_unique_string_def ensure_loop.simps
      suffixed_def str_of_nat.simps digit_char_def)

text \<open>
  Claim C7. For every sequence of discovered devices, the adapters that setup registers
  carry pairwise distinct identifiers, one adapter per device in the order of discovery;
  two devices with the same advertised name are no exception, since each identifier is
  generated against the identifiers assigned earlier in the batch.
\<close>

theorem setup_identifiers_distinct:
  assumes "async_setup X devices = Inr h"
  shows "distinct (map entity_id (entities h)) \<and> map device (entities h) = devices"
proof -
  from assms obtain es ids where loop: "discover_loop X devices [] [] = Inr (es, ids)"
    and h: "h = \<lparr>entities = es, device_ops = []\<rparr>"
    by (auto simp: async_setup_def bind_err_Inr_iff)
  from discover_loop_inv[OF loop]
  have "map entity_id es = ids \<and> distinct ids \<and> map device es = devices"
    by simp
  with h show ?thesis by simp
qed

theorem setup_identifiers_distinct_witness:
  "async_setup example_externals
     [example_device DreamScreenHD ''Den'' 0, example_device OtherDevice ''Den'' 1] =
   Inr \<lparr>entities = [example_entity DreamScreenHD ''dreamscreen.den'' ''Den'' 0,
                    example_entity OtherDevice ''dreamscreen.den_2'' ''Den'' 1],
        device_ops = []\<rparr> \<and>
   distinct (map entity_id [example_entity DreamScreenHD ''dreamscreen.den'' ''Den'' 0,
                            example_entity OtherDevice ''dreamscreen.den_2'' ''Den'' 1])"
  using setup_identifiers_distinct[OF example_setup]
  by (simp add: example_setup)

section \<open>The dispatcher's properties\<close>

subsection \<open>The loops\<close>

lemma write_device_id [simp]: "entity_id (write_device t a v e) = entity_id e"
  by (simp add: write_device_def)

lemma setattr_idem: "setattr (setattr d a v) a v = setattr d a v"
  by (simp add: setattr_def)

lemma write_all_step:
  "write_all ts a v (write_device t a v e) = write_all (t # ts) a v e"
  by (simp add: write_all_def write_device_def setattr_idem)

lemma setattr_loop_eq:
  "setattr_loop a v ts h ups =
     (h\<lparr>entities := map (write_all ts a v) (entities h),
        device_ops := device_ops h @ map (\<lambda>t. SetAttr t a v) ts\<rparr>, ups @ ts)"
proof (induction ts arbitrary: h ups)
  case Nil
  show ?case by (simp add: write_all_def map_idI)
next
  case (Cons t ts)
  have "map (write_all ts a v) (map (write_device t a v) (entities h)) =
        map (write_all (t # ts) a v) (entities h)"
    by (simp add: write_all_step)
  then show ?case by (simp add: Cons.IH)
qed

lemma update_id [simp]: "entity_id (update X e) = entity_id e"
  by (simp add: update_def)

lemma fold_update_eq:
  "distinct ups \<Longrightarrow>
   fold (async_update_ha_state X) ups h =
     h\<lparr>entities := map (refresh_all X ups) (entities h),
       device_ops := device_ops h @ map UpdateState ups\<rparr>"
proof (induction ups arbitrary: h)
  case Nil
  show ?case by (simp add: refresh_all_def map_idI)
next
  case (Cons t ts)
  have "refresh_all X ts (if entity_id e = t then update X e else e) = refresh_all X (t # ts) e" for e
    using Cons.prems by (auto simp: refresh_all_def)
  then have "map (refresh_all X ts) (map (\<lambda>e. if entity_id e = t then update X e else e) (entities h)) =
        map (refresh_all X (t # ts)) (entities h)"
    by simp
  with Cons show ?case by (simp add: async_update_ha_state_def)
qed

lemma write_all_nil: "map (write_all [] a v) es = es"
  by (simp add: write_all_def map_idI)

lemma refresh_all_nil: "map (refresh_all X []) es = es"
  by (simp add: refresh_all_def map_idI)

lemma distinct_targets: "distinct (async_extract_from_service h call)"
  by (simp add: async_extract_from_service_def split: option.splits)

lemma handler_eq:
  assumes "map_of (SERVICE_TO_ATTRIBUTE X) (service call) = Some sd"
  shows "async_handle_dreamscreen_services X h call =
     (Inr (),
      h\<lparr>entities :=
           map (refresh_all X (async_extract_from_service h call))
             (map (write_all (async_extract_from_service h call) (attribute sd)
                     (dict_get (data call) (param sd)))
                (entities h)),
        device_ops :=
           device_ops h
           @ map (\<lambda>t. SetAttr t (attribute sd) (dict_get (data call) (param sd)))
               (async_extract_from_service h call)
           @ map UpdateState (async_extract_from_service h call)\<rparr>)"
proof (cases "async_extract_from_service h call = []")
  case True
  with assms show ?thesis
    by (simp add: async_handle_dreamscreen_services_def setattr_loop_eq write_all_nil
        refresh_all_nil Let_def)
next
  case False
  with assms show ?thesis
    by (simp add: async_handle_dreamscreen_services_def setattr_loop_eq asyncio_wait_def
        fold_update_eq[OF distinct_targets] Let_def)
qed

lemma registered_lookup:
  "map_of (registered_services X) n = map_option schema (map_of (SERVICE_TO_ATTRIBUTE X) n)"
  by (simp add: registered_services_def map_of_map)

lemmas service_names =
  SERVICE_MODE_def SERVICE_HDMI_SOURCE_def SERVICE_BRIGHTNESS_def SERVICE_AMBIENT_SCENE_def
  SERVICE_AMBIENT_COLOR_def

lemmas param_names =
  ATTR_ENTITY_ID_def CONF_MODE_def CONF_HDMI_SOURCE_def CONF_BRIGHTNESS_def
  CONF_AMBIENT_SCENE_def CONF_AMBIENT_COLOR_def

lemma table_lookup:
  "map_of (SERVICE_TO_ATTRIBUTE X) ''set_mode'' =
     Some \<lparr>attribute = ''mode'', schema = SERVICE_MODE_SCHEMA X, param = CONF_MODE\<rparr>"
  "map_of (SERVICE_TO_ATTRIBUTE X) ''set_hdmi_source'' =
     Some \<lparr>attribute = ''hdmi_input'', schema = SERVICE_HDMI_SOURCE_SCHEMA X,
           param = CONF_HDMI_SOURCE\<rparr>"
  "map_of (SERVICE_TO_ATTRIBUTE X) ''set_brightness'' =
     Some \<lparr>attribute = ''brightness'', schema = SERVICE_BRIGHTNESS_SCHEMA X,
           param = CONF_BRIGHTNESS\<rparr>"
  "map_of (SERVICE_TO_ATTRIBUTE X) ''set_ambient_scene'' =
     Some \<lparr>attribute = ''ambient_scene'', schema = SERVICE_AMBIENT_SCENE_SCHEMA X,
           param = CONF_AMBIENT_SCENE\<rparr>"
  "map_of (SERVICE_TO_ATTRIBUTE X) ''set_ambient_color'' =
     Some \<lparr>attribute = ''ambient_color'', schema = SERVICE_AMBIENT_COLOR_SCHEMA X,
           param = CONF_AMBIENT_COLOR\<rparr>"
  unfolding SERVICE_TO_ATTRIBUTE_def service_names
  by simp_all

lemma registered_schemas:
  "map_of (registered_services X) ''set_mode'' = Some (SERVICE_MODE_SCHEMA X)"
  "map_of (registered_services X) ''set_hdmi_source'' = Some (SERVICE_HDMI_SOURCE_SCHEMA X)"
  "map_of (registered_services X) ''set_brightness'' = Some (SERVICE_BRIGHTNESS_SCHEMA X)"
  "map_of (registered_services X) ''set_ambient_scene'' = Some (SERVICE_AMBIENT_SCENE_SCHEMA X)"
  "map_of (registered_services X) ''set_ambient_color'' = Some (SERVICE_AMBIENT_COLOR_SCHEMA X)"
  unfolding registered_services_def
  by (simp_all add: map_of_map table_lookup)

subsection \<open>State after set\_mode\<close>

lemma state_after_write: "state (e\<lparr>device := setattr (device e) ''mode'' (PInt m)\<rparr>) =
   Inr (if m = 0 then ''off'' else ''on'')"
  by (simp add: state_def getattr_setattr)

lemma mode_attribute:
  "map_of (SERVICE_TO_ATTRIBUTE X) SERVICE_MODE = Some sd \<Longrightarrow> attribute sd = ''mode''"
  by (auto simp: SERVICE_TO_ATTRIBUTE_def)

text \<open>
  Claim C2. When the write loop of \<open>set_mode\<close> has written a mode value \<open>m\<close> onto the
  \<open>mode\<close> attribute of the targets' devices, the \<open>state\<close> of every target is \<open>on\<close> if
  \<open>m\<close> is not zero and \<open>off\<close> if it is zero (for every integer \<open>m\<close>, so for the values
  0..3 that the schema lets through), and the \<open>state\<close> of every other adapter is what it
  was.
\<close>

theorem set_mode_state:
  assumes "map_of (SERVICE_TO_ATTRIBUTE X) SERVICE_MODE = Some sd"
    and "setattr_loop (attribute sd) (PInt m) targets h updates = (h', updates')"
  shows "map state (entities h') =
     map (\<lambda>e. if entity_id e \<in> set targets then Inr (if m = 0 then ''off'' else ''on'')
              else state e)
       (entities h)"
proof -
  have "state (write_all targets ''mode'' (PInt m) e) =
        (if entity_id e \<in> set targets then Inr (if m = 0 then ''off'' else ''on'') else state e)" for e
    by (simp add: write_all_def state_after_write)
  with assms(2) show ?thesis
    by (auto simp: setattr_loop_eq mode_attribute[OF assms(1)])
qed

theorem set_mode_state_witness:
  "map state (entities (fst (setattr_loop ''mode'' (PInt 0) [''dreamscreen.den''] example_hass []))) =
     [Inr ''off'', Inr ''on''] \<and>
   map state (entities (fst (setattr_loop ''mode'' (PInt 3) [''dreamscreen.den''] example_hass []))) =
     [Inr ''on'', Inr ''on'']"
proof -
  have loop: "setattr_loop
        (attribute \<lparr>attribute = ''mode'', schema = SERVICE_MODE_SCHEMA example_externals,
                    param = CONF_MODE\<rparr>)
        (PInt m) [''dreamscreen.den''] example_hass [] =
      (fst (setattr_loop ''mode'' (PInt m) [''dreamscreen.den''] example_hass []),
       snd (setattr_loop ''mode'' (PInt m) [''dreamscreen.den''] example_hass []))" for m
    by simp
  have attic: "state (example_entity OtherDevice ''dreamscreen.attic'' ''Attic'' 0) = Inr ''on''"
    by (simp add: state_def example_entity_def example_device_def getattr_def)
  from set_mode_state[OF table_lookup(1)[unfolded SERVICE_MODE_def[symmetric]] loop, of 0]
       set_mode_state[OF table_lookup(1)[unfolded SERVICE_MODE_def[symmetric]] loop, of 3]
  show ?thesis
    by (simp add: example_hass_def attic) (simp add: example_entity_def)
qed

subsection \<open>One attribute per call\<close>

text \<open>
  Claim C10. For a call of a service of the table, the write loop of the dispatcher
  changes, on the device of every resolved target, the one attribute the table names for
  the service (it becomes the value of the call's parameter) and nothing else; the
  devices of all other adapters are unchanged. The dispatcher then has the library
  refresh the devices of the targets and returns without error. The operations issued
  are one write of that attribute per target, followed by one refresh per target. The
  class of the device plays no part: \<open>set_hdmi_source\<close> on a device that is not
  HDMI-capable sets its \<open>hdmi_input\<close>.
\<close>

theorem dispatcher_writes_one_attribute:
  assumes "map_of (SERVICE_TO_ATTRIBUTE X) (service call) = Some sd"
    and "targets = async_extract_from_service h call"
    and "v = dict_get (data call) (param sd)"
  shows "setattr_loop (attribute sd) v targets h [] =
     (\<lparr>entities =
         map (\<lambda>e. if entity_id e \<in> set targets
                  then e\<lparr>device :=
                          (device e)\<lparr>obj_dict := (obj_dict (device e))(attribute sd \<mapsto> v)\<rparr>\<rparr>
                  else e)
           (entities h),
       device_ops = device_ops h @ map (\<lambda>t. SetAttr t (attribute sd) v) targets\<rparr>,
      targets) \<and>
   async_handle_dreamscreen_services X h call =
     (Inr (),
      \<lparr>entities =
         map (\<lambda>e. if entity_id e \<in> set targets
                  then e\<lparr>device :=
                          update_current_state X
                            ((device e)\<lparr>obj_dict := (obj_dict (device e))(attribute sd \<mapsto> v)\<rparr>)\<rparr>
                  else e)
           (entities h),
       device_ops =
         device_ops h @ map (\<lambda>t. SetAttr t (attribute sd) v) targets @ map UpdateState targets\<rparr>)"
proof -
  have w: "write_all targets (attribute sd) v e =
        (if entity_id e \<in> set targets
         then e\<lparr>device :=
                 (device e)\<lparr>obj_dict := (obj_dict (device e))(attribute sd \<mapsto> v)\<rparr>\<rparr>
         else e)" for e
    by (simp add: write_all_def setattr_def)
  have r: "refresh_all X targets (write_all targets (attribute sd) v e) =
        (if entity_id e \<in> set targets
         then e\<lparr>device :=
                 update_current_state X
                   ((device e)\<lparr>obj_dict := (obj_dict (device e))(attribute sd \<mapsto> v)\<rparr>)\<rparr>
         else e)" for e
    by (simp add: refresh_all_def write_all_def update_def setattr_def)
  have "setattr_loop (attribute sd) v targets h [] =
     (\<lparr>entities =
         map (\<lambda>e. if entity_id e \<in> set targets
                  then e\<lparr>device :=
                          (device e)\<lparr>obj_dict := (obj_dict (device e))(attribute sd \<mapsto> v)\<rparr>\<rparr>
                  else e)
           (entities h),
       device_ops = device_ops h @ map (\<lambda>t. SetAttr t (attribute sd) v) targets\<rparr>,
      targets)"
    unfolding setattr_loop_eq using w by (cases h) simp
  moreover have "async_handle_dreamscreen_services X h call =
     (Inr (),
      \<lparr>entities =
         map (\<lambda>e. if entity_id e \<in> set targets
                  then e\<lparr>device :=
                          update_current_state X
                            ((device e)\<lparr>obj_dict := (obj_dict (device e))(attribute sd \<mapsto> v)\<rparr>)\<rparr>
                  else e)
           (entities h),
       device_ops =
         device_ops h @ map (\<lambda>t. SetAttr t (attribute sd) v) targets @ map UpdateState targets\<rparr>)"
    unfolding handler_eq[OF assms(1)] assms(2)[symmetric] assms(3)[symmetric]
    using r by (cases h) simp
  ultimately show ?thesis by (rule conjI)
qed

lemma example_hdmi_targets:
  "async_extract_from_service example_hass
     \<lparr>service = ''set_hdmi_source'',
      data = [(''entity_id'', PList [PStr ''dreamscreen.attic'']), (''source'', PInt 1)]\<rparr> =
   [''dreamscreen.attic'']"
  by (simp add: async_extract_from_service_def example_hass_def example_entity_def param_names)

theorem dispatcher_writes_one_attribute_witness:
  "dev_class (example_device OtherDevice ''Attic'' 0) = OtherDevice \<and>
   async_handle_dreamscreen_services example_externals example_hass
     \<lparr>service = ''set_hdmi_source'',
      data = [(''entity_id'', PList [PStr ''dreamscreen.attic'']), (''source'', PInt 1)]\<rparr> =
   (Inr (),
    \<lparr>entities =
       [example_entity DreamScreenHD ''dreamscreen.den'' ''Den'' 0,
        (example_entity OtherDevice ''dreamscreen.attic'' ''Attic'' 0)
          \<lparr>device := (example_device OtherDevice ''Attic'' 0)
             \<lparr>obj_dict := (obj_dict (example_device OtherDevice ''Attic'' 0))
                            (''hdmi_input'' \<mapsto> PInt 1)\<rparr>\<rparr>],
     device_ops = [SetAttr ''dreamscreen.attic'' ''hdmi_input'' (PInt 1),
                   UpdateState ''dreamscreen.attic'']\<rparr>)"
proof -
  let ?call = "\<lparr>service = ''set_hdmi_source'',
      data = [(''entity_id'', PList [PStr ''dreamscreen.attic'']), (''source'', PInt 1)]\<rparr>"
  have look: "map_of (SERVICE_TO_ATTRIBUTE example_externals) (service ?call) =
      Some \<lparr>attribute = ''hdmi_input'', schema = SERVICE_HDMI_SOURCE_SCHEMA example_externals,
            param = CONF_HDMI_SOURCE\<rparr>"
    by (simp add: table_lookup)
  have v: "PInt 1 = dict_get (data ?call)
      (param \<lparr>attribute = ''hdmi_input'', schema = SERVICE_HDMI_SOURCE_SCHEMA example_externals,
            param = CONF_HDMI_SOURCE\<rparr>)"
    by (simp add: dict_get_def param_names)
  from dispatcher_writes_one_attribute[OF look example_hdmi_targets[symmetric] v, THEN conjunct2]
  show ?thesis
    by (simp add: example_hass_def example_entity_def example_externals_def example_device_def)
qed

subsection \<open>No target\<close>

text \<open>
  Claim C8. A call of a service of the table whose target identifiers resolve to no
  registered adapter returns without error and leaves the state as it was: no attribute
  is written and no refresh is issued.
\<close>

theorem no_targets_no_effect:
  assumes "map_of (SERVICE_TO_ATTRIBUTE X) (service call) = Some sd"
    and "async_extract_from_service h call = []"
  shows "async_handle_dreamscreen_services X h call = (Inr (), h)"
  using assms by (simp add: async_handle_dreamscreen_services_def Let_def)

lemma example_mode_schema:
  "SERVICE_MODE_SCHEMA example_externals
     [(''entity_id'', PList [PStr ''dreamscreen.nowhere'']), (''mode'', PInt 2)] =
   Inr [(''entity_id'', PList [PStr ''dreamscreen.nowhere'']), (''mode'', PInt 2)]"
  by (simp add: SERVICE_MODE_SCHEMA_def vol_Schema_def entity_ids_def example_externals_def
      vol_Coerce_int_def vol_Range_def param_names)

lemma example_no_targets:
  "async_extract_from_service example_hass
     \<lparr>service = ''set_mode'',
      data = [(''entity_id'', PList [PStr ''dreamscreen.nowhere'']), (''mode'', PInt 2)]\<rparr> = []"
  by (simp add: async_extract_from_service_def example_hass_def example_entity_def param_names)

theorem no_targets_no_effect_witness:
  "async_extract_from_service example_hass
     \<lparr>service = ''set_mode'',
      data = [(''entity_id'', PList [PStr ''dreamscreen.nowhere'']), (''mode'', PInt 2)]\<rparr> = [] \<and>
   async_handle_dreamscreen_services example_externals example_hass
     \<lparr>service = ''set_mode'',
      data = [(''entity_id'', PList [PStr ''dreamscreen.nowhere'']), (''mode'', PInt 2)]\<rparr> =
   (Inr (), example_hass) \<and>
   async_call example_externals example_hass ''set_mode''
     [(''entity_id'', PList [PStr ''dreamscreen.nowhere'']), (''mode'', PInt 2)] =
   (Inr (), example_hass)"
proof -
  let ?call = "\<lparr>service = ''set_mode'',
      data = [(''entity_id'', PList [PStr ''dreamscreen.nowhere'']), (''mode'', PInt 2)]\<rparr>"
  have look: "map_of (SERVICE_TO_ATTRIBUTE example_externals) (service ?call) =
      Some \<lparr>attribute = ''mode'', schema = SERVICE_MODE_SCHEMA example_externals,
            param = CONF_MODE\<rparr>"
    by (simp add: table_lookup)
  from no_targets_no_effect[OF look example_no_targets]
  show ?thesis
    by (simp add: example_no_targets async_call_def registered_schemas example_mode_schema)
qed

subsection \<open>Rejected parameters\<close>

lemma validate_items_reject:
  assumes inv: "\<And>k f v e. map_of sch k = Some f \<Longrightarrow> f v = Inl e \<Longrightarrow> e = Invalid"
    and f: "map_of sch k = Some f" and bad: "f v = Inl e"
  shows "(k, v) \<in> set d \<Longrightarrow> validate_items sch d = Inl Invalid"
proof (induction d)
  case Nil
  then show ?case by simp
next
  case (Cons kv d)
  obtain k' v' where kv: "kv = (k', v')" by (cases kv)
  show ?case
  proof (cases "map_of sch k'")
    case None
    then show ?thesis by (simp add: kv)
  next
    case (Some f')
    show ?thesis
    proof (cases "f' v'")
      case (Inl e')
      with inv[OF Some Inl] Some show ?thesis by (simp add: kv)
    next
      case (Inr v'')
      with Some bad f have "(k, v) \<noteq> (k', v')" by auto
      with Cons.prems kv have "(k, v) \<in> set d" by auto
      then have "validate_items sch d = Inl Invalid" by (rule Cons.IH)
      with Some Inr show ?thesis by (simp add: kv)
    qed
  qed
qed

lemma vol_Schema_reject:
  assumes "\<And>k f v e. map_of sch k = Some f \<Longrightarrow> f v = Inl e \<Longrightarrow> e = Invalid"
    and "map_of sch k = Some f" and "f v = Inl e" and "(k, v) \<in> set d"
  shows "vol_Schema sch d = Inl Invalid"
  using validate_items_reject[OF assms] by (simp add: vol_Schema_def)

lemma coerce_range_Invalid:
  "vol_All [vol_Coerce_int X, vol_Range lo hi] v = Inl e \<Longrightarrow> e = Invalid"
  by (auto simp: vol_Coerce_int_def vol_Range_def split: pyval.splits option.splits if_splits)

lemma coerce_range_violates:
  "violates (IntRange lo hi) v \<Longrightarrow> vol_All [vol_Coerce_int X, vol_Range lo hi] v = Inl Invalid"
  by (cases v) (auto simp: vol_Coerce_int_def vol_Range_def)

lemma entity_ids_Invalid: "entity_ids X v = Inl e \<Longrightarrow> e = Invalid"
  by (auto simp: entity_ids_def split: option.splits)

lemma match_Invalid: "vol_Match p v = Inl e \<Longrightarrow> e = Invalid"
  by (auto simp: vol_Match_def split: pyval.splits if_splits)

lemma match_violates: "violates ColorPattern v \<Longrightarrow> vol_Match color_regex_match v = Inl Invalid"
  by (cases v) (auto simp: vol_Match_def)

lemma range_schema_reject:
  assumes "(prm, v) \<in> set d" and "violates (IntRange lo hi) v" and "prm \<noteq> ATTR_ENTITY_ID"
  shows "vol_Schema [(ATTR_ENTITY_ID, entity_ids X),
                     (prm, vol_All [vol_Coerce_int X, vol_Range lo hi])] d = Inl Invalid"
proof -
  let ?sch = "[(ATTR_ENTITY_ID, entity_ids X),
               (prm, vol_All [vol_Coerce_int X, vol_Range lo hi])]"
  have inv: "e = Invalid" if "map_of ?sch k = Some f" "f w = Inl e" for k f w e
    using that by (auto split: if_splits dest: entity_ids_Invalid coerce_range_Invalid)
  have look: "map_of ?sch prm = Some (vol_All [vol_Coerce_int X, vol_Range lo hi])"
    using assms(3) by simp
  show ?thesis
    by (rule vol_Schema_reject[OF inv look coerce_range_violates[OF assms(2)] assms(1)])
qed

lemma color_schema_reject:
  assumes "(prm, v) \<in> set d" and "violates ColorPattern v" and "prm \<noteq> ATTR_ENTITY_ID"
  shows "vol_Schema [(ATTR_ENTITY_ID, entity_ids X),
                     (prm, vol_Match color_regex_match)] d = Inl Invalid"
proof -
  let ?sch = "[(ATTR_ENTITY_ID, entity_ids X), (prm, vol_Match color_regex_match)]"
  have inv: "e = Invalid" if "map_of ?sch k = Some f" "f w = Inl e" for k f w e
    using that by (auto split: if_splits dest: entity_ids_Invalid match_Invalid)
  have look: "map_of ?sch prm = Some (vol_Match color_regex_match)"
    using assms(3) by simp
  show ?thesis
    by (rule vol_Schema_reject[OF inv look match_violates[OF assms(2)] assms(1)])
qed


text \<open>
  Claim C1. For each of the five services, a call whose parameter violates the rule
  documented for the service (mode outside 0..3, source outside 0..2, brightness outside
  0..100, scene outside 0..8, colour not matching the pattern) is rejected with
  \<open>Invalid\<close> before the handler runs: the state is the state before the call, so no
  attribute of any device was written and no refresh issued.
\<close>

theorem invalid_parameter_rejected:
  assumes row: "(service_name, prm, r) \<in> set documented_rules"
    and item: "(prm, v) \<in> set d"
    and bad: "violates r v"
  shows "async_call X h service_name d = (Inl Invalid, h)"
proof -
  from row have
    "(service_name = ''set_mode'' \<and> prm = ''mode'' \<and> r = IntRange 0 3) \<or>
     (service_name = ''set_hdmi_source'' \<and> prm = ''source'' \<and> r = IntRange 0 2) \<or>
     (service_name = ''set_brightness'' \<and> prm = ''brightness'' \<and> r = IntRange 0 100) \<or>
     (service_name = ''set_ambient_scene'' \<and> prm = ''scene'' \<and> r = IntRange 0 8) \<or>
     (service_name = ''set_ambient_color'' \<and> prm = ''color'' \<and> r = ColorPattern)"
    unfolding documented_rules_def by simp
  then show ?thesis
  proof (elim disjE conjE)
    assume 1: "service_name = ''set_mode''" "prm = ''mode''" "r = IntRange 0 3"
    with item bad have "SERVICE_MODE_SCHEMA X d = Inl Invalid"
      unfolding SERVICE_MODE_SCHEMA_def CONF_MODE_def
      by (intro range_schema_reject) (simp_all add: ATTR_ENTITY_ID_def)
    with 1 show ?thesis by (simp add: async_call_def registered_schemas)
  next
    assume 2: "service_name = ''set_hdmi_source''" "prm = ''source''" "r = IntRange 0 2"
    with item bad have "SERVICE_HDMI_SOURCE_SCHEMA X d = Inl Invalid"
      unfolding SERVICE_HDMI_SOURCE_SCHEMA_def CONF_HDMI_SOURCE_def
      by (intro range_schema_reject) (simp_all add: ATTR_ENTITY_ID_def)
    with 2 show ?thesis by (simp add: async_call_def registered_schemas)
  next
    assume 3: "service_name = ''set_brightness''" "prm = ''brightness''" "r = IntRange 0 100"
    with item bad have "SERVICE_BRIGHTNESS_SCHEMA X d = Inl Invalid"
      unfolding SERVICE_BRIGHTNESS_SCHEMA_def CONF_BRIGHTNESS_def
      by (intro range_schema_reject) (simp_all add: ATTR_ENTITY_ID_def)
    with 3 show ?thesis by (simp add: async_call_def registered_schemas)
  next
    assume 4: "service_name = ''set_ambient_scene''" "prm = ''scene''" "r = IntRange 0 8"
    with item bad have "SERVICE_AMBIENT_SCENE_SCHEMA X d = Inl Invalid"
      unfolding SERVICE_AMBIENT_SCENE_SCHEMA_def CONF_AMBIENT_SCENE_def
      by (intro range_schema_reject) (simp_all add: ATTR_ENTITY_ID_def)
    with 4 show ?thesis by (simp add: async_call_def registered_schemas)
  next
    assume 5: "service_name = ''set_ambient_color''" "prm = ''color''" "r = ColorPattern"
    with item bad have "SERVICE_AMBIENT_COLOR_SCHEMA X d = Inl Invalid"
      unfolding SERVICE_AMBIENT_COLOR_SCHEMA_def CONF_AMBIENT_COLOR_def
      by (intro color_schema_reject) (simp_all add: ATTR_ENTITY_ID_def)
    with 5 show ?thesis by (simp add: async_call_def registered_schemas)
  qed
qed

theorem invalid_parameter_rejected_witness:
  "(''set_brightness'', ''brightness'', IntRange 0 100) \<in> set documented_rules \<and>
   violates (IntRange 0 100) (PInt 101) \<and>
   async_call example_externals example_hass ''set_brightness''
     [(''entity_id'', PList [PStr ''dreamscreen.den'']), (''brightness'', PInt 101)] =
   (Inl Invalid, example_hass) \<and>
   (''set_ambient_color'', ''color'', ColorPattern) \<in> set documented_rules \<and>
   violates ColorPattern (PStr ''#12G'') \<and>
   async_call example_externals example_hass ''set_ambient_color''
     [(''entity_id'', PList [PStr ''dreamscreen.den'']), (''color'', PStr ''#12G'')] =
   (Inl Invalid, example_hass)"
proof -
  have row: "(''set_brightness'', ''brightness'', IntRange 0 100) \<in> set documented_rules"
    by (simp add: documented_rules_def)
  have item: "(''brightness'', PInt 101) \<in>
      set [(''entity_id'', PList [PStr ''dreamscreen.den'']), (''brightness'', PInt 101)]"
    by simp
  have bad: "violates (IntRange 0 100) (PInt 101)" by simp
  have row': "(''set_ambient_color'', ''color'', ColorPattern) \<in> set documented_rules"
    by (simp add: documented_rules_def)
  have item': "(''color'', PStr ''#12G'') \<in>
      set [(''entity_id'', PList [PStr ''dreamscreen.den'']), (''color'', PStr ''#12G'')]"
    by simp
  have bad': "violates ColorPattern (PStr ''#12G'')"
    by (simp add: color_regex_match_def is_hex_char_def)
  from invalid_parameter_rejected[OF row item bad] invalid_parameter_rejected[OF row' item' bad']
    row bad row' bad'
  show ?thesis by simp
qed

end
